theory Spec2Isabelle
  imports Main "HOL-Library.Word"
begin

unbundle bit_operations_syntax

section \<open>The Win32 debugger core of edb\<close>

text \<open>
  A shallow embedding of \<^verbatim>\<open>src/plugins/DebuggerCore/win32/DebuggerCore.cpp\<close>.
  The member variables of \<^verbatim>\<open>DebuggerCore\<close> are a record that every operation takes
  and returns. Calls into the operating system are effects: each one is appended, in
  program order, to the field \<open>calls\<close>, and what the operating system answers is read
  from a record of type \<open>env\<close>. A null pointer dereference and a failed \<^verbatim>\<open>Q_ASSERT\<close>
  are values of type \<open>fault\<close>. The member names of the source end in an underscore
  (\<^verbatim>\<open>process_\<close>, \<^verbatim>\<open>threads_\<close>, \<^verbatim>\<open>active_thread_\<close>, \<^verbatim>\<open>hProcess_\<close>, \<^verbatim>\<open>lastEvent_\<close>);
  the fields here drop it.
\<close>

subsection \<open>Windows data\<close>

type_synonym dword = "32 word"
type_synonym pid_t = dword
type_synonym tid_t = dword

text \<open>A \<^verbatim>\<open>HANDLE\<close> or an address; \<open>0\<close> is \<^verbatim>\<open>nullptr\<close>.\<close>

type_synonym handle = nat
type_synonym address = nat

record CREATE_THREAD_DEBUG_INFO =
  ct_hThread :: handle
  ct_lpThreadLocalBase :: address
  ct_lpStartAddress :: address

record CREATE_PROCESS_DEBUG_INFO =
  cp_hFile :: handle
  cp_hProcess :: handle
  cp_hThread :: handle
  cp_lpBaseOfImage :: address
  cp_lpThreadLocalBase :: address
  cp_lpStartAddress :: address

record LOAD_DLL_DEBUG_INFO =
  ld_hFile :: handle
  ld_lpBaseOfDll :: address

text \<open>
  \<^verbatim>\<open>dwDebugEventCode\<close> together with the member of the union \<^verbatim>\<open>u\<close> that it selects.
  \<open>UnloadDll\<close>, \<open>OutputDebugString\<close> and \<open>Unrecognized\<close> are the codes that reach
  the \<^verbatim>\<open>default:\<close> label of the switch.
\<close>

datatype debug_info =
    Exception (ExceptionCode: dword) (dwFirstChance: dword)
  | CreateThread CREATE_THREAD_DEBUG_INFO
  | CreateProcessInfo CREATE_PROCESS_DEBUG_INFO
  | ExitThread dword
  | ExitProcess dword
  | LoadDll LOAD_DLL_DEBUG_INFO
  | UnloadDll address
  | OutputDebugString address
  | Rip dword dword
  | Unrecognized dword

record DEBUG_EVENT =
  dwProcessId :: pid_t
  dwThreadId :: tid_t
  u :: debug_info

fun is_exception :: "debug_info \<Rightarrow> bool" where
  "is_exception (Exception _ _) = True"
| "is_exception _ = False"

fun is_exit_process :: "debug_info \<Rightarrow> bool" where
  "is_exit_process (ExitProcess _) = True"
| "is_exit_process _ = False"

record PROCESS_INFORMATION =
  pi_hProcess :: handle
  pi_hThread :: handle
  pi_dwProcessId :: pid_t
  pi_dwThreadId :: tid_t

record PROCESSENTRY32W =
  th32ProcessID :: pid_t
  th32ParentProcessID :: pid_t

definition DBG_CONTINUE :: dword where
  "DBG_CONTINUE = 0x00010002"

definition DEBUG_PROCESS :: dword where
  "DEBUG_PROCESS = 0x00000001"

definition DEBUG_ONLY_THIS_PROCESS :: dword where
  "DEBUG_ONLY_THIS_PROCESS = 0x00000002"

definition CREATE_NEW_CONSOLE :: dword where
  "CREATE_NEW_CONSOLE = 0x00000010"

definition CREATE_UNICODE_ENVIRONMENT :: dword where
  "CREATE_UNICODE_ENVIRONMENT = 0x00000400"

subsection \<open>The collaborators of the core\<close>

text \<open>
  Modelled from the spec: the enumeration \<^verbatim>\<open>edb::EVENT_STATUS\<close> is declared outside
  this file; section 6 gives the dispositions of the resume primitive as
  continue-normally, exception-not-handled and stop.
\<close>

datatype EVENT_STATUS = DEBUG_CONTINUE | DEBUG_EXCEPTION_NOT_HANDLED | DEBUG_STOP

text \<open>
  Modelled from the spec: the class \<^verbatim>\<open>PlatformProcess\<close> is declared outside this file.
  Section 3 gives a DebuggedProcess a process identifier, a handle and the most recent
  raw event payload; the payload is absent until the wait loop stores one.
\<close>

record PlatformProcess =
  pid :: pid_t
  hProcess :: handle
  lastEvent :: "DEBUG_EVENT option"

text \<open>
  Modelled from the spec: the class \<^verbatim>\<open>PlatformThread\<close> is declared outside this file.
  Section 3 gives a DebuggedThread a handle, a start address and a thread-local-storage
  base, all taken from the creation payload; its identifier is its key in the registry.
\<close>

record PlatformThread =
  hThread :: handle
  start_address :: address
  tls_base :: address

definition new_PlatformThread :: "CREATE_THREAD_DEBUG_INFO \<Rightarrow> PlatformThread" where
  "new_PlatformThread info =
     \<lparr>hThread = ct_hThread info,
      start_address = ct_lpStartAddress info,
      tls_base = ct_lpThreadLocalBase info\<rparr>"

datatype Status = Ok | Error string

datatype fault = NullDereference | AssertionFailed

text \<open>The calls that leave the program, as they appear in the source.\<close>

datatype os_call =
    CloseHandle handle
  | ProcessResume PlatformProcess EVENT_STATUS
  | ContinueDebugEvent pid_t tid_t dword
  | DebugActiveProcessStop pid_t
  | CallDebugActiveProcess pid_t
  | TerminateProcess handle int
  | ClearBreakpoints
  | GetEnvironmentStringsW
  | FreeEnvironmentStringsW
  | CallCreateProcessW string string dword string
  | SetDebugPrivilege handle bool

text \<open>
  What the surroundings answer. \<open>qt_no_debug\<close> says whether \<^verbatim>\<open>QT_NO_DEBUG\<close> is
  defined, in which case \<^verbatim>\<open>Q_ASSERT\<close> expands to nothing and its argument is not
  evaluated. \<open>canonicalPath\<close> and \<open>canonicalFilePath\<close> are the two members of
  \<^verbatim>\<open>QFileInfo\<close>: the first is the canonical path of the directory that holds the file
  (without the file's name), the second the canonical path of the file itself. The
  source calls only the first.
\<close>

record env =
  qt_no_debug :: bool
  GetProcessId :: "handle \<Rightarrow> pid_t"
  OpenProcess :: "pid_t \<Rightarrow> handle"
  DebugActiveProcess :: "pid_t \<Rightarrow> bool"
  CreateProcessW :: "string \<Rightarrow> string \<Rightarrow> dword \<Rightarrow> string \<Rightarrow> PROCESS_INFORMATION option"
  canonicalPath :: "string \<Rightarrow> string"
  canonicalFilePath :: "string \<Rightarrow> string"
  CreateToolhelp32Snapshot :: "PROCESSENTRY32W list option"

text \<open>
  Modelled from the spec: the two constructors of \<^verbatim>\<open>PlatformProcess\<close> are outside this
  file. One takes the handle the operating system reported, the other a process
  identifier, for which it asks the operating system for a handle.
\<close>

definition PlatformProcess_of_handle :: "env \<Rightarrow> handle \<Rightarrow> PlatformProcess" where
  "PlatformProcess_of_handle e h =
     \<lparr>pid = GetProcessId e h, hProcess = h, lastEvent = None\<rparr>"

definition PlatformProcess_of_pid :: "env \<Rightarrow> pid_t \<Rightarrow> PlatformProcess" where
  "PlatformProcess_of_pid e p =
     \<lparr>pid = p, hProcess = OpenProcess e p, lastEvent = None\<rparr>"

subsection \<open>The state of the core\<close>

text \<open>
  \<open>threads\<close> is the \<^verbatim>\<open>QHash\<close> from thread identifiers to threads: \<^verbatim>\<open>insert\<close>
  replaces the value under a key that is present, \<^verbatim>\<open>remove\<close> of an absent key changes
  nothing.
\<close>

record DebuggerCore =
  process :: "PlatformProcess option"
  threads :: "tid_t \<rightharpoonup> PlatformThread"
  active_thread :: tid_t
  calls :: "os_call list"

definition call :: "os_call \<Rightarrow> DebuggerCore \<Rightarrow> DebuggerCore" where
  "call x c = c\<lparr>calls := calls c @ [x]\<rparr>"

text \<open>
  Modelled from the spec: \<^verbatim>\<open>attached()\<close> is a member of the base class, outside this
  file. By section 3 the core reports itself attached exactly when the target is
  non-null.
\<close>

definition attached :: "DebuggerCore \<Rightarrow> bool" where
  "attached c = (process c \<noteq> None)"

text \<open>
  Modelled from the spec: \<^verbatim>\<open>PlatformProcess::resume\<close> is outside this file. It is the
  resume primitive of section 6; the call is recorded with the process object it is
  made on, which carries the payload stored there at that moment.
\<close>

definition resume :: "PlatformProcess \<Rightarrow> EVENT_STATUS \<Rightarrow> DebuggerCore \<Rightarrow> DebuggerCore" where
  "resume p status c = call (ProcessResume p status) c"

subsection \<open>detach, attach, kill\<close>

text \<open>
  \<^verbatim>\<open>clear_breakpoints()\<close> belongs to the base class and is recorded as one call.
\<close>

definition detach :: "DebuggerCore \<Rightarrow> Status \<times> DebuggerCore" where
  "detach c =
     (case process c of
        None \<Rightarrow> (Ok, c)
      | Some p \<Rightarrow>
          (let c1 = call ClearBreakpoints c;
               c2 = call (ContinueDebugEvent (pid p) (active_thread c1) DBG_CONTINUE) c1;
               c3 = call (DebugActiveProcessStop (pid p)) c2
           in (Ok, c3\<lparr>process := None, threads := Map.empty\<rparr>)))"

definition attach :: "env \<Rightarrow> pid_t \<Rightarrow> DebuggerCore \<Rightarrow> Status \<times> DebuggerCore" where
  "attach e p c =
     (let c1 = snd (detach c);
          c2 = call (CallDebugActiveProcess p) c1
      in if DebugActiveProcess e p
         then (Ok, c2\<lparr>process := Some (PlatformProcess_of_pid e p)\<rparr>)
         else (Error ''Error DebuggerCore::attach'', c2))"

definition kill :: "DebuggerCore \<Rightarrow> DebuggerCore" where
  "kill c =
     (case process c of
        None \<Rightarrow> c
      | Some p \<Rightarrow> snd (detach (call (TerminateProcess (hProcess p) (- 1)) c)))"

subsection \<open>The wait loop\<close>

text \<open>
  \<^verbatim>\<open>Q_ASSERT(process_->pid() == de.dwProcessId)\<close>: nothing when \<^verbatim>\<open>QT_NO_DEBUG\<close> is
  defined; otherwise it reads through \<^verbatim>\<open>process_\<close> and stops the program when the
  identifiers differ.
\<close>

definition assert_pid :: "env \<Rightarrow> DEBUG_EVENT \<Rightarrow> DebuggerCore \<Rightarrow> fault option" where
  "assert_pid e de c =
     (if qt_no_debug e then None
      else case process c of
             None \<Rightarrow> Some NullDereference
           | Some p \<Rightarrow> if pid p = dwProcessId de then None else Some AssertionFailed)"

text \<open>
  The assignment to \<^verbatim>\<open>active_thread_\<close> and the switch on the event code. The result
  is the new state and the value of \<^verbatim>\<open>propagate\<close>.
\<close>

definition dispatch :: "env \<Rightarrow> DEBUG_EVENT \<Rightarrow> DebuggerCore \<Rightarrow> fault + (DebuggerCore \<times> bool)" where
  "dispatch e de c0 =
     (let c = c0\<lparr>active_thread := dwThreadId de\<rparr> in
      case u de of
        CreateThread info \<Rightarrow>
          Inr (c\<lparr>threads := (threads c)(active_thread c \<mapsto> new_PlatformThread info)\<rparr>, False)
      | ExitThread code \<Rightarrow>
          Inr (c\<lparr>threads := (threads c)(active_thread c := None)\<rparr>, False)
      | CreateProcessInfo info \<Rightarrow>
          (let c1 = call (CloseHandle (cp_hFile info)) c;
               c2 = c1\<lparr>process := Some (PlatformProcess_of_handle e (cp_hProcess info))\<rparr>;
               thread_info = \<lparr>ct_hThread = cp_hThread info,
                              ct_lpThreadLocalBase = cp_lpThreadLocalBase info,
                              ct_lpStartAddress = cp_lpStartAddress info\<rparr>
           in Inr (c2\<lparr>threads := (threads c2)(active_thread c2 \<mapsto> new_PlatformThread thread_info)\<rparr>,
                   False))
      | LoadDll info \<Rightarrow> Inr (call (CloseHandle (ld_hFile info)) c, False)
      | ExitProcess code \<Rightarrow>
          (case process c of
             None \<Rightarrow> Inl NullDereference
           | Some p \<Rightarrow> Inr ((resume p DEBUG_CONTINUE c)\<lparr>process := None\<rparr>, True))
      | Exception code first_chance \<Rightarrow> Inr (c, True)
      | Rip err type \<Rightarrow> Inr (c, False)
      | UnloadDll base \<Rightarrow> Inr (c, False)
      | OutputDebugString str \<Rightarrow> Inr (c, False)
      | Unrecognized code \<Rightarrow> Inr (c, False))"

text \<open>
  \<^verbatim>\<open>if(auto p = static_cast<PlatformProcess *>(process_.get())) p->lastEvent_ = de;\<close>
\<close>

definition stamp :: "DEBUG_EVENT \<Rightarrow> DebuggerCore \<Rightarrow> DebuggerCore" where
  "stamp de c =
     (case process c of
        None \<Rightarrow> c
      | Some p \<Rightarrow> c\<lparr>process := Some (p\<lparr>lastEvent := Some de\<rparr>)\<rparr>)"

text \<open>One pass through the body of the loop, up to the test of \<^verbatim>\<open>propagate\<close>.\<close>

definition iteration :: "env \<Rightarrow> DEBUG_EVENT \<Rightarrow> DebuggerCore \<Rightarrow> fault + (DebuggerCore \<times> bool)" where
  "iteration e de c =
     (case assert_pid e de c of
        Some f \<Rightarrow> Inl f
      | None \<Rightarrow>
          (case dispatch e de c of
             Inl f \<Rightarrow> Inl f
           | Inr (c1, propagate) \<Rightarrow> Inr (stamp de c1, propagate)))"

record PlatformEvent =
  event :: DEBUG_EVENT

text \<open>
  How a call of \<^verbatim>\<open>wait_debug_event\<close> ends: with a fault, never (the wait is
  \<^verbatim>\<open>INFINITE\<close> and no notification comes), or with a pointer to an event (\<open>None\<close> is
  \<^verbatim>\<open>nullptr\<close>), the new state and the notifications not yet consumed.
\<close>

datatype wait_outcome =
    Faulted fault
  | Blocked DebuggerCore
  | Returned "PlatformEvent option" DebuggerCore "DEBUG_EVENT list"

text \<open>
  The second argument of \<^verbatim>\<open>WaitForDebugEvent\<close>:
  \<^verbatim>\<open>msecs == 0 ? INFINITE : static_cast<DWORD>(msecs)\<close>. The cast of an \<^verbatim>\<open>int\<close>
  keeps its low 32 bits, so \<open>- 1\<close> becomes \<open>INFINITE\<close> as well.
\<close>

definition INFINITE :: dword where
  "INFINITE = 0xFFFFFFFF"

definition wait_timeout :: "int \<Rightarrow> dword" where
  "wait_timeout msecs = (if msecs = 0 then INFINITE else word_of_int msecs)"

text \<open>
  The \<^verbatim>\<open>while\<close> loop. The list holds the notifications that \<^verbatim>\<open>WaitForDebugEvent\<close>
  will deliver, in order; once it is empty, a bounded wait times out and returns
  false, and a wait whose timeout is \<^verbatim>\<open>INFINITE\<close> does not return.
\<close>

fun wait_loop :: "env \<Rightarrow> int \<Rightarrow> DEBUG_EVENT list \<Rightarrow> DebuggerCore \<Rightarrow> wait_outcome" where
  "wait_loop e msecs [] c =
     (if wait_timeout msecs = INFINITE then Blocked c else Returned None c [])"
| "wait_loop e msecs (de # rest) c =
     (case iteration e de c of
        Inl f \<Rightarrow> Faulted f
      | Inr (c1, propagate) \<Rightarrow>
          if propagate then Returned (Some \<lparr>event = de\<rparr>) c1 rest
          else (case process c1 of
                  None \<Rightarrow> Faulted NullDereference
                | Some p \<Rightarrow> wait_loop e msecs rest (resume p DEBUG_EXCEPTION_NOT_HANDLED c1)))"

definition wait_debug_event :: "env \<Rightarrow> int \<Rightarrow> DEBUG_EVENT list \<Rightarrow> DebuggerCore \<Rightarrow> wait_outcome" where
  "wait_debug_event e msecs events c =
     (if attached c then wait_loop e msecs events c else Returned None c events)"

subsection \<open>open\<close>

text \<open>
  The member \<^verbatim>\<open>open\<close> is \<open>open_path\<close> here, \<open>open\<close> being a keyword.
  \<^verbatim>\<open>set_debug_privilege\<close> is a sequence of token calls whose result the callers drop;
  it is recorded as one call.
\<close>

definition CREATE_FLAGS :: dword where
  "CREATE_FLAGS =
     DEBUG_PROCESS OR DEBUG_ONLY_THIS_PROCESS OR CREATE_UNICODE_ENVIRONMENT OR CREATE_NEW_CONSOLE"

definition working_directory :: "env \<Rightarrow> string \<Rightarrow> string \<Rightarrow> string" where
  "working_directory e path cwd = (if cwd = [] then canonicalPath e path else cwd)"

fun append_args :: "string \<Rightarrow> string list \<Rightarrow> string" where
  "append_args command_str [] = command_str"
| "append_args command_str (arg # args) = append_args (command_str @ '' '' @ arg) args"

definition command_line :: "env \<Rightarrow> string \<Rightarrow> string list \<Rightarrow> string" where
  "command_line e path args =
     append_args ([CHR 0x22] @ canonicalPath e path @ [CHR 0x22]) args"

definition open_path :: "env \<Rightarrow> string \<Rightarrow> string \<Rightarrow> string list \<Rightarrow> string \<Rightarrow> DebuggerCore
    \<Rightarrow> fault + (Status \<times> DebuggerCore)" where
  "open_path e path cwd args tty c =
     (if \<not> qt_no_debug e \<and> path = [] then Inl AssertionFailed
      else
        let c1 = snd (detach c);
            tcwd = working_directory e path cwd;
            c2 = call GetEnvironmentStringsW c1;
            command_str = command_line e path args;
            c3 = call (CallCreateProcessW path command_str CREATE_FLAGS tcwd) c2
        in case CreateProcessW e path command_str CREATE_FLAGS tcwd of
             Some process_info \<Rightarrow>
               (let c4 = c3\<lparr>active_thread := pi_dwThreadId process_info\<rparr>;
                    c5 = call (CloseHandle (pi_hThread process_info)) c4;
                    c6 = call (SetDebugPrivilege (pi_hProcess process_info) False) c5;
                    c7 = c6\<lparr>process := Some (PlatformProcess_of_handle e (pi_hProcess process_info))\<rparr>
                in Inr (Ok, call FreeEnvironmentStringsW c7))
           | None \<Rightarrow> Inr (Error ''Error DebuggerCore::open'', call FreeEnvironmentStringsW c3))"

subsection \<open>parent_pid\<close>

text \<open>
  The \<^verbatim>\<open>do ... while(Process32NextW(...))\<close> loop over the entries of the snapshot;
  \<^verbatim>\<open>Process32FirstW\<close> fails on a snapshot without entries.
\<close>

fun scan_snapshot :: "pid_t \<Rightarrow> PROCESSENTRY32W list \<Rightarrow> pid_t \<Rightarrow> pid_t" where
  "scan_snapshot p [] parent = parent"
| "scan_snapshot p (pe32 # rest) parent =
     (if p = th32ProcessID pe32 then th32ParentProcessID pe32
      else scan_snapshot p rest parent)"

definition parent_pid :: "env \<Rightarrow> pid_t \<Rightarrow> pid_t" where
  "parent_pid e p =
     (let parent = 1 in
      case CreateToolhelp32Snapshot e of
        None \<Rightarrow> parent
      | Some entries \<Rightarrow> scan_snapshot p entries parent)"

subsection \<open>A concrete run\<close>

text \<open>
  An environment in which the executable \<^verbatim>\<open>C:/a.exe\<close> can be started as process 200
  with initial thread 7, process 200 can be attached to and process 300 cannot, and
  the process table holds the processes 4, 100 and 200.
\<close>

definition example_env :: env where
  "example_env =
     \<lparr>qt_no_debug = False,
      GetProcessId = (\<lambda>h. if h = 68 then 200 else 0),
      OpenProcess = (\<lambda>p. if p = 200 then 68 else 0),
      DebugActiveProcess = (\<lambda>p. p = 200),
      CreateProcessW = (\<lambda>path command_line flags cwd.
         if path = ''C:/a.exe''
         then Some \<lparr>pi_hProcess = 68, pi_hThread = 72, pi_dwProcessId = 200, pi_dwThreadId = 7\<rparr>
         else None),
      canonicalPath = (\<lambda>path. if path = ''C:/a.exe'' then ''C:/'' else []),
      canonicalFilePath = (\<lambda>path. if path = ''C:/a.exe'' then ''C:/a.exe'' else []),
      CreateToolhelp32Snapshot =
        Some [\<lparr>th32ProcessID = 4, th32ParentProcessID = 0\<rparr>,
              \<lparr>th32ProcessID = 100, th32ParentProcessID = 4\<rparr>,
              \<lparr>th32ProcessID = 200, th32ParentProcessID = 100\<rparr>]\<rparr>"

definition detached_core :: DebuggerCore where
  "detached_core = \<lparr>process = None, threads = Map.empty, active_thread = 0, calls = []\<rparr>"

definition process_created :: DEBUG_EVENT where
  "process_created =
     \<lparr>dwProcessId = 200, dwThreadId = 7,
      u = CreateProcessInfo
            \<lparr>cp_hFile = 76, cp_hProcess = 68, cp_hThread = 72, cp_lpBaseOfImage = 4194304,
             cp_lpThreadLocalBase = 8192, cp_lpStartAddress = 4198400\<rparr>\<rparr>"

definition thread_created :: DEBUG_EVENT where
  "thread_created =
     \<lparr>dwProcessId = 200, dwThreadId = 9,
      u = CreateThread \<lparr>ct_hThread = 80, ct_lpThreadLocalBase = 12288, ct_lpStartAddress = 4202496\<rparr>\<rparr>"

definition thread_exited :: DEBUG_EVENT where
  "thread_exited = \<lparr>dwProcessId = 200, dwThreadId = 11, u = ExitThread 0\<rparr>"

definition breakpoint_hit :: DEBUG_EVENT where
  "breakpoint_hit = \<lparr>dwProcessId = 200, dwThreadId = 7, u = Exception 0x80000003 1\<rparr>"

definition process_exited :: DEBUG_EVENT where
  "process_exited = \<lparr>dwProcessId = 200, dwThreadId = 7, u = ExitProcess 0\<rparr>"

definition main_thread :: PlatformThread where
  "main_thread = \<lparr>hThread = 72, start_address = 4198400, tls_base = 8192\<rparr>"

text \<open>
  The states the core goes through when \<^verbatim>\<open>C:/a.exe\<close> is opened from
  \<open>detached_core\<close> without arguments and the notifications \<open>process_created\<close> and
  \<open>process_exited\<close> arrive: after \<^verbatim>\<open>open\<close>, after the first notification has been
  taken in and resumed, and after the second.
\<close>

definition opened_calls :: "os_call list" where
  "opened_calls =
     [GetEnvironmentStringsW,
      CallCreateProcessW ''C:/a.exe'' ([CHR 0x22] @ ''C:/'' @ [CHR 0x22]) 1043 ''C:/'',
      CloseHandle 72,
      SetDebugPrivilege 68 False,
      FreeEnvironmentStringsW]"

definition opened_core :: DebuggerCore where
  "opened_core =
     \<lparr>process = Some \<lparr>pid = 200, hProcess = 68, lastEvent = None\<rparr>,
      threads = Map.empty,
      active_thread = 7,
      calls = opened_calls\<rparr>"

definition target :: PlatformProcess where
  "target = \<lparr>pid = 200, hProcess = 68, lastEvent = Some process_created\<rparr>"

definition running_core :: DebuggerCore where
  "running_core =
     \<lparr>process = Some target,
      threads = [7 \<mapsto> main_thread],
      active_thread = 7,
      calls = opened_calls @ [CloseHandle 76, ProcessResume target DEBUG_EXCEPTION_NOT_HANDLED]\<rparr>"

definition exited_core :: DebuggerCore where
  "exited_core =
     \<lparr>process = None,
      threads = [7 \<mapsto> main_thread],
      active_thread = 7,
      calls = opened_calls @ [CloseHandle 76, ProcessResume target DEBUG_EXCEPTION_NOT_HANDLED,
                              ProcessResume target DEBUG_CONTINUE]\<rparr>"

section \<open>Properties\<close>

subsection \<open>The steps of one iteration\<close>

lemma wait_timeout_infinite:
  "wait_timeout 0 = INFINITE" "wait_timeout (- 1) = INFINITE" "wait_timeout 1 \<noteq> INFINITE"
  by (simp_all add: wait_timeout_def INFINITE_def)

lemma wait_loop_exhausted:
  "wait_loop e msecs [] c
     = (if msecs = 0 \<or> (word_of_int msecs :: dword) = 0xFFFFFFFF
        then Blocked c else Returned None c [])"
  by (simp add: wait_timeout_def INFINITE_def)

lemma assert_pid_ok:
  "process c = Some p \<Longrightarrow> qt_no_debug e \<or> pid p = dwProcessId de \<Longrightarrow> assert_pid e de c = None"
  by (auto simp: assert_pid_def)

lemma iteration_dispatch:
  "process c = Some p \<Longrightarrow> qt_no_debug e \<or> pid p = dwProcessId de \<Longrightarrow>
   iteration e de c =
     (case dispatch e de c of Inl f \<Rightarrow> Inl f | Inr (c1, b) \<Rightarrow> Inr (stamp de c1, b))"
  by (simp add: iteration_def assert_pid_ok)

lemma dispatch_quiet:
  assumes "process c = Some p" "\<not> is_exception (u de)" "\<not> is_exit_process (u de)"
  shows "\<exists>c1 p1. dispatch e de c = Inr (c1, False) \<and> process c1 = Some p1
           \<and> active_thread c1 = dwThreadId de"
  using assms by (cases "u de") (simp_all add: dispatch_def call_def Let_def)

lemma stamp_Some:
  "process c = Some p \<Longrightarrow> stamp de c = c\<lparr>process := Some (p\<lparr>lastEvent := Some de\<rparr>)\<rparr>"
  by (simp add: stamp_def)

lemma stamp_None: "process c = None \<Longrightarrow> stamp de c = c"
  by (simp add: stamp_def)

lemma iteration_quiet:
  assumes "process c = Some p" "qt_no_debug e \<or> pid p = dwProcessId de"
    "\<not> is_exception (u de)" "\<not> is_exit_process (u de)"
  shows "\<exists>c1 p1. iteration e de c = Inr (c1, False) \<and> process c1 = Some p1
           \<and> lastEvent p1 = Some de \<and> active_thread c1 = dwThreadId de"
proof -
  from dispatch_quiet [OF assms(1,3,4)] obtain c0 p0 where
    d: "dispatch e de c = Inr (c0, False)" and p0: "process c0 = Some p0"
    and a: "active_thread c0 = dwThreadId de"
    by blast
  have "iteration e de c = Inr (stamp de c0, False)"
    using d by (simp add: iteration_dispatch [OF assms(1,2)])
  moreover have "process (stamp de c0) = Some (p0\<lparr>lastEvent := Some de\<rparr>)"
    by (simp add: stamp_Some [OF p0])
  moreover have "active_thread (stamp de c0) = dwThreadId de"
    by (simp add: stamp_Some [OF p0] a)
  ultimately show ?thesis by simp
qed

lemma dispatch_cases:
  assumes "process c = Some p"
  shows "\<exists>c1 b. dispatch e de c = Inr (c1, b) \<and> active_thread c1 = dwThreadId de
           \<and> (if is_exit_process (u de) then process c1 = None
               else \<exists>p1. process c1 = Some p1)"
  using assms by (cases "u de") (auto simp: dispatch_def call_def resume_def Let_def)

subsection \<open>Which notifications reach the caller\<close>

text \<open>
  C1. Let the core be attached and let the notification pass the assertion on its
  process identifier. If the notification is neither an exception nor a process exit
  (thread created or exited, process created, module loaded or unloaded, debug string,
  RIP, unrecognized), the iteration does not propagate, and the run resumes the target,
  which carries the notification, with \<open>DEBUG_EXCEPTION_NOT_HANDLED\<close> and waits again:
  when this notification is the only one, \<open>wait_debug_event\<close> ends in exactly the
  state of the iteration with that resume recorded last, returning no event after a
  bounded wait and blocking on an infinite one; when an exception follows, it is that
  exception which is returned, from the state with the resume recorded; in general the
  run continues as the loop does from that state. If the notification is an exception
  or a process exit, \<open>wait_debug_event\<close> returns an event holding it, in the state the
  iteration leaves, with the remaining notifications unconsumed.
\<close>

theorem wait_absorbs:
  assumes "process c = Some p" "qt_no_debug e \<or> pid p = dwProcessId de"
  shows "if is_exception (u de) \<or> is_exit_process (u de)
         then \<exists>c1. iteration e de c = Inr (c1, True)
                \<and> wait_debug_event e msecs (de # rest) c
                    = Returned (Some \<lparr>event = de\<rparr>) c1 rest
         else \<exists>c1 p1. iteration e de c = Inr (c1, False) \<and> process c1 = Some p1
                \<and> lastEvent p1 = Some de
                \<and> wait_debug_event e msecs [de] c
                    = (if wait_timeout msecs = INFINITE
                       then Blocked (c1\<lparr>calls := calls c1 @ [ProcessResume p1 DEBUG_EXCEPTION_NOT_HANDLED]\<rparr>)
                       else Returned None
                              (c1\<lparr>calls := calls c1 @ [ProcessResume p1 DEBUG_EXCEPTION_NOT_HANDLED]\<rparr>) [])
                \<and> (\<forall>de2 rest2.
                      is_exception (u de2) \<and> (qt_no_debug e \<or> pid p1 = dwProcessId de2) \<longrightarrow>
                      wait_debug_event e msecs (de # de2 # rest2) c
                        = Returned (Some \<lparr>event = de2\<rparr>)
                            (c1\<lparr>calls := calls c1 @ [ProcessResume p1 DEBUG_EXCEPTION_NOT_HANDLED],
                                active_thread := dwThreadId de2,
                                process := Some (p1\<lparr>lastEvent := Some de2\<rparr>)\<rparr>)
                            rest2)
                \<and> wait_debug_event e msecs (de # rest) c
                    = wait_loop e msecs rest (resume p1 DEBUG_EXCEPTION_NOT_HANDLED c1)
                \<and> calls (resume p1 DEBUG_EXCEPTION_NOT_HANDLED c1)
                    = calls c1 @ [ProcessResume p1 DEBUG_EXCEPTION_NOT_HANDLED]
                \<and> attached (resume p1 DEBUG_EXCEPTION_NOT_HANDLED c1)"
proof (cases "is_exception (u de) \<or> is_exit_process (u de)")
  case True
  have att: "attached c" using assms(1) by (simp add: attached_def)
  from True have "\<exists>c0. dispatch e de c = Inr (c0, True)"
    using assms(1) by (cases "u de") (simp_all add: dispatch_def)
  then obtain c0 where d: "dispatch e de c = Inr (c0, True)" by blast
  have i: "iteration e de c = Inr (stamp de c0, True)"
    using d by (simp add: iteration_dispatch [OF assms])
  then have "wait_debug_event e msecs (de # rest) c
      = Returned (Some \<lparr>event = de\<rparr>) (stamp de c0) rest"
    using att by (simp add: wait_debug_event_def)
  with True i show ?thesis by auto
next
  case False
  then have k: "\<not> is_exception (u de)" "\<not> is_exit_process (u de)" by simp_all
  have att: "attached c" using assms(1) by (simp add: attached_def)
  from iteration_quiet [OF assms k] obtain c1 p1 where
    i: "iteration e de c = Inr (c1, False)" and p1: "process c1 = Some p1"
    and l: "lastEvent p1 = Some de"
    by blast
  let ?c2 = "resume p1 DEBUG_EXCEPTION_NOT_HANDLED c1"
  have c2: "?c2 = c1\<lparr>calls := calls c1 @ [ProcessResume p1 DEBUG_EXCEPTION_NOT_HANDLED]\<rparr>"
    by (simp add: resume_def call_def)
  have p2: "process ?c2 = Some p1"
    using p1 by (simp add: c2)
  have w: "wait_debug_event e msecs (de # rest) c = wait_loop e msecs rest ?c2" for rest
    using att i p1 by (simp add: wait_debug_event_def)
  have single: "wait_debug_event e msecs [de] c
      = (if wait_timeout msecs = INFINITE
         then Blocked (c1\<lparr>calls := calls c1 @ [ProcessResume p1 DEBUG_EXCEPTION_NOT_HANDLED]\<rparr>)
         else Returned None
                (c1\<lparr>calls := calls c1 @ [ProcessResume p1 DEBUG_EXCEPTION_NOT_HANDLED]\<rparr>) [])"
    by (simp add: w c2)
  have next_one: "wait_debug_event e msecs (de # de2 # rest2) c
      = Returned (Some \<lparr>event = de2\<rparr>)
          (c1\<lparr>calls := calls c1 @ [ProcessResume p1 DEBUG_EXCEPTION_NOT_HANDLED],
              active_thread := dwThreadId de2,
              process := Some (p1\<lparr>lastEvent := Some de2\<rparr>)\<rparr>)
          rest2"
    if x: "is_exception (u de2)" and a: "qt_no_debug e \<or> pid p1 = dwProcessId de2"
    for de2 rest2
  proof -
    have d2: "dispatch e de2 ?c2 = Inr (?c2\<lparr>active_thread := dwThreadId de2\<rparr>, True)"
      using x by (cases "u de2") (simp_all add: dispatch_def)
    have "iteration e de2 ?c2
        = Inr (stamp de2 (?c2\<lparr>active_thread := dwThreadId de2\<rparr>), True)"
      using d2 by (simp add: iteration_dispatch [OF p2 a])
    moreover have "stamp de2 (?c2\<lparr>active_thread := dwThreadId de2\<rparr>)
        = c1\<lparr>calls := calls c1 @ [ProcessResume p1 DEBUG_EXCEPTION_NOT_HANDLED],
             active_thread := dwThreadId de2,
             process := Some (p1\<lparr>lastEvent := Some de2\<rparr>)\<rparr>"
      using p1 by (simp add: stamp_def c2)
    ultimately show ?thesis by (simp add: w)
  qed
  have "calls ?c2 = calls c1 @ [ProcessResume p1 DEBUG_EXCEPTION_NOT_HANDLED]"
    by (simp add: c2)
  moreover have "attached ?c2"
    using p2 by (simp add: attached_def)
  ultimately show ?thesis
    using False i p1 l single next_one w by (simp only: if_False) blast
qed

text \<open>
  The theorem on the running example: a thread-created notification alone ends a
  bounded wait with no event and the resume recorded last; followed by a breakpoint
  exception, the exception is what is returned; and a breakpoint exception at the head
  is returned at once.
\<close>

theorem wait_absorbs_witness:
  "process running_core = Some target
   \<and> (qt_no_debug example_env \<or> pid target = dwProcessId thread_created)
   \<and> \<not> (is_exception (u thread_created) \<or> is_exit_process (u thread_created))
   \<and> wait_timeout 1 \<noteq> INFINITE
   \<and> (\<exists>c1 p1. iteration example_env thread_created running_core = Inr (c1, False)
         \<and> process c1 = Some p1
         \<and> lastEvent p1 = Some thread_created
         \<and> wait_debug_event example_env 1 [thread_created] running_core
             = Returned None
                 (c1\<lparr>calls := calls c1 @ [ProcessResume p1 DEBUG_EXCEPTION_NOT_HANDLED]\<rparr>) []
         \<and> wait_debug_event example_env 1 [thread_created, breakpoint_hit] running_core
             = Returned (Some \<lparr>event = breakpoint_hit\<rparr>)
                 (c1\<lparr>calls := calls c1 @ [ProcessResume p1 DEBUG_EXCEPTION_NOT_HANDLED],
                     active_thread := dwThreadId breakpoint_hit,
                     process := Some (p1\<lparr>lastEvent := Some breakpoint_hit\<rparr>)\<rparr>) [])
   \<and> (qt_no_debug example_env \<or> pid target = dwProcessId breakpoint_hit)
   \<and> is_exception (u breakpoint_hit)
   \<and> (\<exists>c1. wait_debug_event example_env 1 [breakpoint_hit, thread_created] running_core
         = Returned (Some \<lparr>event = breakpoint_hit\<rparr>) c1 [thread_created])"
proof -
  have h1: "process running_core = Some target"
    by (simp add: running_core_def)
  have h2: "qt_no_debug example_env \<or> pid target = dwProcessId thread_created"
    by (simp add: thread_created_def target_def)
  have h3: "qt_no_debug example_env \<or> pid target = dwProcessId breakpoint_hit"
    by (simp add: breakpoint_hit_def target_def)
  have k: "\<not> (is_exception (u thread_created) \<or> is_exit_process (u thread_created))"
    by (simp add: thread_created_def)
  have x: "is_exception (u breakpoint_hit)"
    by (simp add: breakpoint_hit_def)
  have t: "wait_timeout 1 \<noteq> INFINITE"
    by (simp add: wait_timeout_def INFINITE_def)
  have b: "pid p1 = dwProcessId breakpoint_hit"
    if "iteration example_env thread_created running_core = Inr (c1, False)"
      and "process c1 = Some p1" for c1 p1
    using that
    by (auto simp: iteration_def assert_pid_def example_env_def running_core_def target_def
        thread_created_def breakpoint_hit_def dispatch_def stamp_def)
  from k wait_absorbs [OF h1 h2, of 1 "[]"] obtain c1 p1 where
    i: "iteration example_env thread_created running_core = Inr (c1, False)"
    and p1: "process c1 = Some p1"
    and l: "lastEvent p1 = Some thread_created"
    and single: "wait_debug_event example_env 1 [thread_created] running_core
        = (if wait_timeout 1 = INFINITE
           then Blocked (c1\<lparr>calls := calls c1 @ [ProcessResume p1 DEBUG_EXCEPTION_NOT_HANDLED]\<rparr>)
           else Returned None
                  (c1\<lparr>calls := calls c1 @ [ProcessResume p1 DEBUG_EXCEPTION_NOT_HANDLED]\<rparr>) [])"
    and following: "\<forall>de2 rest2.
        is_exception (u de2) \<and> (qt_no_debug example_env \<or> pid p1 = dwProcessId de2) \<longrightarrow>
        wait_debug_event example_env 1 (thread_created # de2 # rest2) running_core
          = Returned (Some \<lparr>event = de2\<rparr>)
              (c1\<lparr>calls := calls c1 @ [ProcessResume p1 DEBUG_EXCEPTION_NOT_HANDLED],
                  active_thread := dwThreadId de2,
                  process := Some (p1\<lparr>lastEvent := Some de2\<rparr>)\<rparr>)
              rest2"
    by (simp only: if_False) blast
  have s1: "wait_debug_event example_env 1 [thread_created] running_core
      = Returned None
          (c1\<lparr>calls := calls c1 @ [ProcessResume p1 DEBUG_EXCEPTION_NOT_HANDLED]\<rparr>) []"
    using single t by simp
  have s2: "wait_debug_event example_env 1 [thread_created, breakpoint_hit] running_core
      = Returned (Some \<lparr>event = breakpoint_hit\<rparr>)
          (c1\<lparr>calls := calls c1 @ [ProcessResume p1 DEBUG_EXCEPTION_NOT_HANDLED],
              active_thread := dwThreadId breakpoint_hit,
              process := Some (p1\<lparr>lastEvent := Some breakpoint_hit\<rparr>)\<rparr>) []"
    using following x b [OF i p1] by blast
  have quiet: "\<exists>c1 p1. iteration example_env thread_created running_core = Inr (c1, False)
         \<and> process c1 = Some p1
         \<and> lastEvent p1 = Some thread_created
         \<and> wait_debug_event example_env 1 [thread_created] running_core
             = Returned None
                 (c1\<lparr>calls := calls c1 @ [ProcessResume p1 DEBUG_EXCEPTION_NOT_HANDLED]\<rparr>) []
         \<and> wait_debug_event example_env 1 [thread_created, breakpoint_hit] running_core
             = Returned (Some \<lparr>event = breakpoint_hit\<rparr>)
                 (c1\<lparr>calls := calls c1 @ [ProcessResume p1 DEBUG_EXCEPTION_NOT_HANDLED],
                     active_thread := dwThreadId breakpoint_hit,
                     process := Some (p1\<lparr>lastEvent := Some breakpoint_hit\<rparr>)\<rparr>) []"
    using i p1 l s1 s2 by blast
  have loud: "\<exists>c1. wait_debug_event example_env 1 [breakpoint_hit, thread_created] running_core
         = Returned (Some \<lparr>event = breakpoint_hit\<rparr>) c1 [thread_created]"
    using x wait_absorbs [OF h1 h3, of 1 "[thread_created]"]
    by (simp only: simp_thms if_True) blast
  from h1 h2 h3 k x t quiet loud show ?thesis by blast
qed

text \<open>
  C2. On a process-exit notification received while attached, \<open>wait_debug_event\<close>
  returns an event holding that notification. The only call made is the resume of the
  target with \<open>DEBUG_CONTINUE\<close>, made on the target before it is dropped; in the
  state returned the target is gone, so the core is not attached, and no resume with
  \<open>DEBUG_EXCEPTION_NOT_HANDLED\<close> follows.
\<close>

theorem exit_process_propagates:
  assumes "process c = Some p" "qt_no_debug e \<or> pid p = dwProcessId de"
    "u de = ExitProcess code"
  shows "wait_debug_event e msecs (de # rest) c
           = Returned (Some \<lparr>event = de\<rparr>)
               ((resume p DEBUG_CONTINUE (c\<lparr>active_thread := dwThreadId de\<rparr>))\<lparr>process := None\<rparr>)
               rest
         \<and> calls ((resume p DEBUG_CONTINUE (c\<lparr>active_thread := dwThreadId de\<rparr>))\<lparr>process := None\<rparr>)
             = calls c @ [ProcessResume p DEBUG_CONTINUE]
         \<and> \<not> attached ((resume p DEBUG_CONTINUE (c\<lparr>active_thread := dwThreadId de\<rparr>))\<lparr>process := None\<rparr>)"
proof -
  let ?c' = "(resume p DEBUG_CONTINUE (c\<lparr>active_thread := dwThreadId de\<rparr>))\<lparr>process := None\<rparr>"
  have d: "dispatch e de c = Inr (?c', True)"
    using assms(1,3) by (simp add: dispatch_def)
  have n: "process ?c' = None" by simp
  have "iteration e de c = Inr (?c', True)"
    using d by (simp add: iteration_dispatch [OF assms(1,2)] stamp_None [OF n])
  moreover have "attached c" using assms(1) by (simp add: attached_def)
  ultimately have "wait_debug_event e msecs (de # rest) c = Returned (Some \<lparr>event = de\<rparr>) ?c' rest"
    by (simp add: wait_debug_event_def)
  moreover have "calls ?c' = calls c @ [ProcessResume p DEBUG_CONTINUE]"
    by (simp add: resume_def call_def)
  moreover have "\<not> attached ?c'" by (simp add: attached_def)
  ultimately show ?thesis by simp
qed

text \<open>The theorem on the running example, with a further notification left pending.\<close>

theorem exit_process_propagates_witness:
  "process running_core = Some target
   \<and> pid target = dwProcessId process_exited
   \<and> u process_exited = ExitProcess 0
   \<and> wait_debug_event example_env 0 [process_exited, breakpoint_hit] running_core
       = Returned (Some \<lparr>event = process_exited\<rparr>) exited_core [breakpoint_hit]
   \<and> \<not> attached exited_core"
proof -
  have h1: "process running_core = Some target"
    by (simp add: running_core_def)
  have h2: "qt_no_debug example_env
      \<or> pid target = dwProcessId process_exited"
    by (simp add: process_exited_def target_def)
  have h3: "u process_exited = ExitProcess 0"
    by (simp add: process_exited_def)
  have e: "(resume target DEBUG_CONTINUE
             (running_core\<lparr>active_thread := dwThreadId process_exited\<rparr>))\<lparr>process := None\<rparr>
           = exited_core"
    by (simp add: resume_def call_def running_core_def exited_core_def process_exited_def)
  have d: "pid target = dwProcessId process_exited"
    by (simp add: process_exited_def target_def)
  show ?thesis
    using h1 h3 d exit_process_propagates [OF h1 h2 h3, of 0 "[breakpoint_hit]"]
    unfolding e by blast
qed

text \<open>
  C3. On a process-created notification received while attached, the iteration does
  not propagate. Afterwards the target is the process object built from the reported
  process handle (with the notification stored on it), the one call made is the closing
  of the file handle of the notification, and the registry maps the reported thread
  identifier to a thread built from the fields of the same payload. The registry has
  exactly one key equal to that identifier; its other keys are left as they were, so
  started from an empty registry it holds that one thread and nothing else. The loop
  then resumes and goes on with the remaining notifications.
\<close>

theorem process_created_registers_main_thread:
  assumes "process c = Some p" "qt_no_debug e \<or> pid p = dwProcessId de"
    "u de = CreateProcessInfo info"
  shows "\<exists>c1 p1. iteration e de c = Inr (c1, False)
           \<and> p1 = (PlatformProcess_of_handle e (cp_hProcess info))\<lparr>lastEvent := Some de\<rparr>
           \<and> process c1 = Some p1
           \<and> hProcess p1 = cp_hProcess info
           \<and> calls c1 = calls c @ [CloseHandle (cp_hFile info)]
           \<and> threads c1 = (threads c)(dwThreadId de \<mapsto>
                 new_PlatformThread \<lparr>ct_hThread = cp_hThread info,
                                     ct_lpThreadLocalBase = cp_lpThreadLocalBase info,
                                     ct_lpStartAddress = cp_lpStartAddress info\<rparr>)
           \<and> card {k \<in> dom (threads c1). k = dwThreadId de} = 1
           \<and> (threads c = Map.empty \<longrightarrow> dom (threads c1) = {dwThreadId de})
           \<and> wait_debug_event e msecs (de # rest) c
               = wait_loop e msecs rest (resume p1 DEBUG_EXCEPTION_NOT_HANDLED c1)"
proof -
  let ?p1 = "(PlatformProcess_of_handle e (cp_hProcess info))\<lparr>lastEvent := Some de\<rparr>"
  let ?th = "new_PlatformThread \<lparr>ct_hThread = cp_hThread info,
                                  ct_lpThreadLocalBase = cp_lpThreadLocalBase info,
                                  ct_lpStartAddress = cp_lpStartAddress info\<rparr>"
  let ?c1 = "c\<lparr>active_thread := dwThreadId de,
               calls := calls c @ [CloseHandle (cp_hFile info)],
               process := Some ?p1,
               threads := (threads c)(dwThreadId de \<mapsto> ?th)\<rparr>"
  have d: "dispatch e de c = Inr (?c1\<lparr>process := Some (PlatformProcess_of_handle e (cp_hProcess info))\<rparr>, False)"
    using assms(3) by (simp add: dispatch_def call_def Let_def)
  have i: "iteration e de c = Inr (?c1, False)"
    using d by (simp add: iteration_dispatch [OF assms(1,2)] stamp_def)
  have att: "attached c" using assms(1) by (simp add: attached_def)
  have w: "wait_debug_event e msecs (de # rest) c
      = wait_loop e msecs rest (resume ?p1 DEBUG_EXCEPTION_NOT_HANDLED ?c1)"
    using att i by (simp add: wait_debug_event_def)
  have s: "{k \<in> dom (threads ?c1). k = dwThreadId de} = {dwThreadId de}"
    by auto
  have "card {k \<in> dom (threads ?c1). k = dwThreadId de} = 1"
    by (simp only: s) simp
  moreover have "hProcess ?p1 = cp_hProcess info"
    by (simp add: PlatformProcess_of_handle_def)
  ultimately show ?thesis using i w by auto
qed

text \<open>The theorem at the first notification after \<^verbatim>\<open>open\<close> in the running example.\<close>

theorem process_created_registers_main_thread_witness:
  "process opened_core = Some \<lparr>pid = 200, hProcess = 68, lastEvent = None\<rparr>
   \<and> (qt_no_debug example_env \<or> (200::pid_t) = dwProcessId process_created)
   \<and> (\<exists>c1. iteration example_env process_created opened_core = Inr (c1, False)
         \<and> process c1 = Some target
         \<and> calls c1 = opened_calls @ [CloseHandle 76]
         \<and> threads c1 = [7 \<mapsto> main_thread]
         \<and> card {k \<in> dom (threads c1). k = 7} = 1
         \<and> dom (threads c1) = {7}
         \<and> wait_debug_event example_env 1 [process_created] opened_core
             = wait_loop example_env 1 [] (resume target DEBUG_EXCEPTION_NOT_HANDLED c1))"
proof -
  let ?info = "\<lparr>cp_hFile = 76, cp_hProcess = 68, cp_hThread = 72, cp_lpBaseOfImage = 4194304,
             cp_lpThreadLocalBase = 8192, cp_lpStartAddress = 4198400\<rparr>"
  have h1: "process opened_core = Some \<lparr>pid = 200, hProcess = 68, lastEvent = None\<rparr>"
    by (simp add: opened_core_def)
  have h2: "qt_no_debug example_env
      \<or> pid \<lparr>pid = 200, hProcess = 68, lastEvent = None\<rparr> = dwProcessId process_created"
    by (simp add: process_created_def)
  have h3: "u process_created = CreateProcessInfo ?info"
    by (simp add: process_created_def)
  have t: "(PlatformProcess_of_handle example_env (cp_hProcess ?info))\<lparr>lastEvent := Some process_created\<rparr>
      = target"
    by (simp add: PlatformProcess_of_handle_def example_env_def target_def)
  have m: "new_PlatformThread \<lparr>ct_hThread = cp_hThread ?info,
                                 ct_lpThreadLocalBase = cp_lpThreadLocalBase ?info,
                                 ct_lpStartAddress = cp_lpStartAddress ?info\<rparr> = main_thread"
    by (simp add: new_PlatformThread_def main_thread_def)
  have d: "dwThreadId process_created = 7" "cp_hFile ?info = 76"
    "threads opened_core = Map.empty" "calls opened_core = opened_calls"
    by (simp_all add: process_created_def opened_core_def)
  from process_created_registers_main_thread [OF h1 h2 h3, of 1 "[]"]
  show ?thesis
    unfolding t m d using h1 h2 by auto
qed

subsection \<open>attach, detach, kill\<close>

text \<open>
  C4. If \<^verbatim>\<open>DebugActiveProcess\<close> fails, \<open>attach\<close> returns the error
  \<^verbatim>\<open>Error DebuggerCore::attach\<close>, which is neither success nor the error of
  \<^verbatim>\<open>open\<close>; the core is not attached, and its state is the one \<open>detach\<close> leaves plus
  the record of the failed call: no target, no registry key that was not there before,
  the active thread unchanged. If \<^verbatim>\<open>DebugActiveProcess\<close> succeeds, \<open>attach\<close> returns
  success and the core is attached, with the target built from the process identifier.
\<close>

theorem attach_all_or_nothing:
  "(\<not> DebugActiveProcess e p \<longrightarrow>
       \<not> attached (snd (attach e p c))
     \<and> fst (attach e p c) = Error ''Error DebuggerCore::attach''
     \<and> fst (attach e p c) \<noteq> Ok
     \<and> fst (attach e p c) \<noteq> Error ''Error DebuggerCore::open''
     \<and> snd (attach e p c) = call (CallDebugActiveProcess p) (snd (detach c))
     \<and> process (snd (attach e p c)) = None
     \<and> dom (threads (snd (attach e p c))) \<subseteq> dom (threads c)
     \<and> active_thread (snd (attach e p c)) = active_thread c)
   \<and> (DebugActiveProcess e p \<longrightarrow>
       attached (snd (attach e p c))
     \<and> process (snd (attach e p c)) = Some (PlatformProcess_of_pid e p)
     \<and> process (snd (attach e p c)) \<noteq> None
     \<and> fst (attach e p c) = Ok)"
  by (cases "process c") (simp_all add: attach_def detach_def call_def attached_def Let_def)

text \<open>
  The theorem in the running example: process 300 cannot be attached to, process 200
  can.
\<close>

theorem attach_all_or_nothing_witness:
  "\<not> DebugActiveProcess example_env 300
   \<and> \<not> attached (snd (attach example_env 300 running_core))
   \<and> fst (attach example_env 300 running_core) = Error ''Error DebuggerCore::attach''
   \<and> dom (threads (snd (attach example_env 300 running_core))) \<subseteq> dom (threads running_core)
   \<and> DebugActiveProcess example_env 200
   \<and> attached (snd (attach example_env 200 detached_core))
   \<and> fst (attach example_env 200 detached_core) = Ok"
proof -
  have n: "\<not> DebugActiveProcess example_env 300" by (simp add: example_env_def)
  have y: "DebugActiveProcess example_env 200" by (simp add: example_env_def)
  show ?thesis
    using n y attach_all_or_nothing [of example_env 300 running_core]
      attach_all_or_nothing [of example_env 200 detached_core]
    by blast
qed

text \<open>
  C5, as amended. \<open>detach\<close> always returns success; after it the core is not
  attached, and a second \<open>detach\<close> returns success and changes nothing. On a core that
  is not attached the first call already changes nothing, the registry included. The
  registry is empty after each of the two calls whenever the core was attached or the
  registry was empty to begin with.
\<close>

theorem detach_idempotent:
  "fst (detach c) = Ok
   \<and> fst (detach (snd (detach c))) = Ok
   \<and> \<not> attached (snd (detach c))
   \<and> detach (snd (detach c)) = (Ok, snd (detach c))
   \<and> (\<not> attached c \<longrightarrow> detach c = (Ok, c))
   \<and> (attached c \<or> threads c = Map.empty \<longrightarrow>
        threads (snd (detach c)) = Map.empty
      \<and> threads (snd (detach (snd (detach c)))) = Map.empty)"
  by (cases "process c") (simp_all add: detach_def call_def attached_def Let_def)

text \<open>The theorem on an attached core and on a core that was never attached.\<close>

theorem detach_idempotent_witness:
  "attached running_core
   \<and> threads (snd (detach running_core)) = Map.empty
   \<and> threads (snd (detach (snd (detach running_core)))) = Map.empty
   \<and> fst (detach running_core) = Ok
   \<and> fst (detach (snd (detach running_core))) = Ok
   \<and> \<not> attached detached_core
   \<and> detach detached_core = (Ok, detached_core)"
proof -
  have a: "attached running_core" by (simp add: attached_def running_core_def)
  have b: "\<not> attached detached_core" by (simp add: attached_def detached_core_def)
  show ?thesis
    using a b detach_idempotent [of running_core] detach_idempotent [of detached_core]
    by blast
qed

text \<open>
  C5 as stated fails. After the process-created and the process-exited notification
  of the running example the core is not attached and the registry still holds the
  main thread: the process-exit branch drops the target and leaves the registry alone.
  \<open>detach\<close> on that state returns success, changes nothing, and leaves the registry
  non-empty.
\<close>

theorem detach_stale_registry:
  "wait_debug_event example_env 1 [process_created, process_exited] opened_core
     = Returned (Some \<lparr>event = process_exited\<rparr>) exited_core []
   \<and> detach exited_core = (Ok, exited_core)
   \<and> threads (snd (detach exited_core)) 7 = Some main_thread
   \<and> dom (threads (snd (detach exited_core))) \<noteq> {}"
proof -
  have r: "wait_debug_event example_env 1 [process_created, process_exited] opened_core
     = Returned (Some \<lparr>event = process_exited\<rparr>) exited_core []"
    by (simp add: wait_debug_event_def attached_def opened_core_def iteration_def assert_pid_def
      example_env_def process_created_def process_exited_def dispatch_def call_def stamp_def resume_def
      PlatformProcess_of_handle_def new_PlatformThread_def exited_core_def target_def
      main_thread_def Let_def)
  have d: "detach exited_core = (Ok, exited_core)"
    by (simp add: detach_def exited_core_def)
  have t: "threads exited_core 7 = Some main_thread"
    by (simp add: exited_core_def)
  then have "dom (threads exited_core) \<noteq> {}" by auto
  with r d t show ?thesis by simp
qed

text \<open>
  C10. On a core that is not attached \<open>kill\<close> returns the state it was given:
  no call is recorded (neither \<^verbatim>\<open>TerminateProcess\<close> nor the calls of \<open>detach\<close>),
  and the target, the registry and the active thread are the same.
\<close>

theorem kill_detached_is_noop:
  "\<not> attached c \<Longrightarrow> kill c = c"
  by (simp add: kill_def attached_def)

text \<open>The theorem on the core left by a process exit, whose registry is not empty.\<close>

theorem kill_detached_is_noop_witness:
  "\<not> attached exited_core \<and> kill exited_core = exited_core"
proof -
  have a: "\<not> attached exited_core" by (simp add: attached_def exited_core_def)
  show ?thesis using a kill_detached_is_noop [OF a] by simp
qed

subsection \<open>open\<close>

lemma append_args_concat:
  "append_args s args = s @ concat (map (\<lambda>arg. '' '' @ arg) args)"
  by (induction args arbitrary: s) simp_all

lemma command_line_shape:
  "command_line e path args
     = [CHR 0x22] @ canonicalPath e path @ [CHR 0x22] @ concat (map (\<lambda>arg. '' '' @ arg) args)"
  by (simp add: command_line_def append_args_concat)

lemma open_path_passes:
  assumes "qt_no_debug e \<or> path \<noteq> []"
  shows "\<exists>st c1. open_path e path cwd args tty c = Inr (st, c1)
           \<and> CallCreateProcessW path (command_line e path args) CREATE_FLAGS
                (working_directory e path cwd) \<in> set (calls c1)"
  using assms
  by (cases "CreateProcessW e path (command_line e path args) CREATE_FLAGS
               (working_directory e path cwd)")
     (auto simp: open_path_def call_def Let_def)

text \<open>
  C6. The working directory is the one given, or \<open>canonicalPath\<close> of the executable
  when none is given, and the arguments follow the first token in order, each after
  one space. The first token, however, is \<open>canonicalPath\<close> of the executable between
  double quotes: the directory that holds the executable, not the executable. For
  \<^verbatim>\<open>C:/a.exe\<close> with the arguments \<^verbatim>\<open>-x\<close> and \<^verbatim>\<open>y\<close> the command line handed to
  \<^verbatim>\<open>CreateProcessW\<close> is \<^verbatim>\<open>"C:/" -x y\<close>, where the comment in the source announces
  the full path as \<^verbatim>\<open>argv[0]\<close>.
\<close>

theorem open_command_line_names_directory:
  "canonicalPath example_env ''C:/a.exe'' = ''C:/''
   \<and> canonicalFilePath example_env ''C:/a.exe'' = ''C:/a.exe''
   \<and> working_directory example_env ''C:/a.exe'' [] = ''C:/''
   \<and> command_line example_env ''C:/a.exe'' [''-x'', ''y'']
       = [CHR 0x22] @ ''C:/'' @ [CHR 0x22] @ '' -x y''
   \<and> command_line example_env ''C:/a.exe'' [''-x'', ''y'']
       \<noteq> [CHR 0x22] @ canonicalFilePath example_env ''C:/a.exe'' @ [CHR 0x22] @ '' -x y''
   \<and> (case open_path example_env ''C:/a.exe'' [] [''-x'', ''y''] [] detached_core of
         Inl f \<Rightarrow> False
       | Inr (st, c1) \<Rightarrow>
           st = Ok
           \<and> calls c1 ! 1
               = CallCreateProcessW ''C:/a.exe'' ([CHR 0x22] @ ''C:/'' @ [CHR 0x22] @ '' -x y'')
                   CREATE_FLAGS ''C:/'')"
  by (simp add: open_path_def example_env_def detached_core_def detach_def call_def
      working_directory_def command_line_def CREATE_FLAGS_def DEBUG_PROCESS_def
      DEBUG_ONLY_THIS_PROCESS_def CREATE_UNICODE_ENVIRONMENT_def CREATE_NEW_CONSOLE_def
      PlatformProcess_of_handle_def Let_def)

subsection \<open>What an iteration records\<close>

text \<open>
  C7, as amended. Let the core be attached and let the notification pass the assertion
  on its process identifier. After the iteration the active thread is the thread of
  the notification, for every kind. For every kind but process exit there is a target
  and the notification is stored on it, and when the iteration does not propagate, the
  resume that follows is made on that target, which carries the notification. On a
  process exit there is no target afterwards.
\<close>

theorem notification_recorded:
  assumes "process c = Some p" "qt_no_debug e \<or> pid p = dwProcessId de"
  shows "\<exists>c1 propagate. iteration e de c = Inr (c1, propagate)
           \<and> active_thread c1 = dwThreadId de
           \<and> (if is_exit_process (u de) then process c1 = None
               else \<exists>p1. process c1 = Some p1 \<and> lastEvent p1 = Some de
                      \<and> (\<not> propagate \<longrightarrow>
                           wait_loop e msecs (de # rest) c
                             = wait_loop e msecs rest (resume p1 DEBUG_EXCEPTION_NOT_HANDLED c1)))"
proof -
  from dispatch_cases [OF assms(1)] obtain c0 b where
    d: "dispatch e de c = Inr (c0, b)" and a: "active_thread c0 = dwThreadId de"
    and k: "if is_exit_process (u de) then process c0 = None else \<exists>p1. process c0 = Some p1"
    by blast
  have i: "iteration e de c = Inr (stamp de c0, b)"
    using d by (simp add: iteration_dispatch [OF assms])
  show ?thesis
  proof (cases "is_exit_process (u de)")
    case True
    with k have n: "process c0 = None" by simp
    have "stamp de c0 = c0" by (rule stamp_None [OF n])
    with i a n True show ?thesis by simp
  next
    case False
    with k obtain p0 where p0: "process c0 = Some p0" by auto
    let ?p1 = "p0\<lparr>lastEvent := Some de\<rparr>"
    have s: "stamp de c0 = c0\<lparr>process := Some ?p1\<rparr>" by (rule stamp_Some [OF p0])
    have "process (stamp de c0) = Some ?p1" "lastEvent ?p1 = Some de"
      "active_thread (stamp de c0) = dwThreadId de"
      by (simp_all add: s a)
    moreover have "\<not> b \<longrightarrow> wait_loop e msecs (de # rest) c
        = wait_loop e msecs rest (resume ?p1 DEBUG_EXCEPTION_NOT_HANDLED (stamp de c0))"
      using i by (simp add: s)
    ultimately show ?thesis using i False by auto
  qed
qed

text \<open>The theorem at a thread-created notification for the running example.\<close>

theorem notification_recorded_witness:
  "process running_core = Some target
   \<and> (qt_no_debug example_env \<or> pid target = dwProcessId thread_created)
   \<and> \<not> is_exit_process (u thread_created)
   \<and> (\<exists>c1 propagate. iteration example_env thread_created running_core = Inr (c1, propagate)
         \<and> active_thread c1 = 9
         \<and> (\<exists>p1. process c1 = Some p1 \<and> lastEvent p1 = Some thread_created))"
proof -
  have h1: "process running_core = Some target" by (simp add: running_core_def)
  have h2: "qt_no_debug example_env \<or> pid target = dwProcessId thread_created"
    by (simp add: thread_created_def target_def)
  have k: "\<not> is_exit_process (u thread_created)" "dwThreadId thread_created = 9"
    by (simp_all add: thread_created_def)
  from notification_recorded [OF h1 h2, of 1 "[]"]
  show ?thesis unfolding k using h1 h2 k(1) by auto
qed

text \<open>
  C7 as stated fails at a process exit. In the running example the iteration on the
  process-exited notification ends without a target, so the notification is stored
  nowhere; the resume made in that iteration, the last call recorded, was made on the
  target while it still carried the process-created notification.
\<close>

theorem exit_payload_not_stamped:
  "iteration example_env process_exited running_core = Inr (exited_core, True)
   \<and> process exited_core = None
   \<and> active_thread exited_core = dwThreadId process_exited
   \<and> last (calls exited_core) = ProcessResume target DEBUG_CONTINUE
   \<and> lastEvent target \<noteq> Some process_exited"
  by (simp add: iteration_def assert_pid_def example_env_def running_core_def target_def
      process_exited_def process_created_def dispatch_def resume_def call_def stamp_def
      exited_core_def)

text \<open>
  C9. Let the core be attached and let a thread-exit notification pass the assertion
  on its process identifier. If the registry has no entry for its thread identifier
  (the lookup gives \<open>None\<close>), the iteration does not propagate and leaves the registry
  as it was, its size included; every identifier that was unknown before is still
  looked up as \<open>None\<close>.
\<close>

theorem unknown_thread_exit_is_noop:
  assumes "process c = Some p" "qt_no_debug e \<or> pid p = dwProcessId de"
    "u de = ExitThread code" "threads c (dwThreadId de) = None"
  shows "\<exists>c1. iteration e de c = Inr (c1, False)
           \<and> threads c1 = threads c
           \<and> card (dom (threads c1)) = card (dom (threads c))
           \<and> threads c1 (dwThreadId de) = None
           \<and> (\<forall>t. t \<notin> dom (threads c) \<longrightarrow> threads c1 t = None)"
proof -
  let ?c0 = "c\<lparr>active_thread := dwThreadId de\<rparr>"
  have same: "(threads c)(dwThreadId de := None) = threads c"
    using assms(4) by (simp add: fun_upd_idem)
  have d: "dispatch e de c = Inr (?c0, False)"
    using assms(3) by (simp add: dispatch_def same)
  have p0: "process ?c0 = Some p" using assms(1) by simp
  have i: "iteration e de c = Inr (stamp de ?c0, False)"
    using d by (simp add: iteration_dispatch [OF assms(1,2)])
  have t: "threads (stamp de ?c0) = threads c"
    by (simp add: stamp_Some [OF p0])
  show ?thesis using i t assms(4) by (auto simp: domIff)
qed

text \<open>The theorem at the exit of thread 11, which the running example never registered.\<close>

theorem unknown_thread_exit_is_noop_witness:
  "process running_core = Some target
   \<and> (qt_no_debug example_env \<or> pid target = dwProcessId thread_exited)
   \<and> u thread_exited = ExitThread 0
   \<and> threads running_core (dwThreadId thread_exited) = None
   \<and> (\<exists>c1. iteration example_env thread_exited running_core = Inr (c1, False)
         \<and> threads c1 = threads running_core
         \<and> threads c1 11 = None)"
proof -
  have h1: "process running_core = Some target" by (simp add: running_core_def)
  have h2: "qt_no_debug example_env \<or> pid target = dwProcessId thread_exited"
    by (simp add: thread_exited_def target_def)
  have h3: "u thread_exited = ExitThread 0" by (simp add: thread_exited_def)
  have h4: "threads running_core (dwThreadId thread_exited) = None"
    by (simp add: thread_exited_def running_core_def)
  have k: "dwThreadId thread_exited = 11" by (simp add: thread_exited_def)
  from unknown_thread_exit_is_noop [OF h1 h2 h3 h4]
  show ?thesis using h1 h2 h3 h4 unfolding k by blast
qed

subsection \<open>parent_pid\<close>

lemma scan_snapshot_find:
  "scan_snapshot p entries parent
     = (case find (\<lambda>pe. th32ProcessID pe = p) entries of
          None \<Rightarrow> parent
        | Some pe \<Rightarrow> th32ParentProcessID pe)"
  by (induction entries) auto

lemma find_distinct_entry:
  "distinct (map th32ProcessID entries) \<Longrightarrow> pe \<in> set entries \<Longrightarrow>
   find (\<lambda>x. th32ProcessID x = th32ProcessID pe) entries = Some pe"
  by (induction entries) force+

text \<open>
  C8. Given a snapshot, \<open>parent_pid\<close> of a process identifier that occurs in it is
  the parent recorded in the first entry with that identifier, and \<open>parent_pid\<close> of
  an identifier that does not occur is 1, the value the source starts from. When the
  identifiers of the snapshot are distinct, every entry's process is answered with
  that entry's parent.
\<close>

theorem parent_pid_from_snapshot:
  assumes "CreateToolhelp32Snapshot e = Some entries"
  shows "(p \<in> th32ProcessID ` set entries \<longrightarrow>
            (\<exists>pe \<in> set entries. th32ProcessID pe = p
               \<and> find (\<lambda>x. th32ProcessID x = p) entries = Some pe
               \<and> parent_pid e p = th32ParentProcessID pe))
         \<and> (p \<notin> th32ProcessID ` set entries \<longrightarrow> parent_pid e p = 1)
         \<and> (distinct (map th32ProcessID entries) \<longrightarrow>
              (\<forall>pe \<in> set entries. parent_pid e (th32ProcessID pe) = th32ParentProcessID pe))"
proof -
  have pp: "\<And>q. parent_pid e q
      = (case find (\<lambda>pe. th32ProcessID pe = q) entries of
           None \<Rightarrow> 1 | Some pe \<Rightarrow> th32ParentProcessID pe)"
    using assms by (simp add: parent_pid_def scan_snapshot_find)
  have present: "p \<in> th32ProcessID ` set entries \<longrightarrow>
      (\<exists>pe \<in> set entries. th32ProcessID pe = p
         \<and> find (\<lambda>x. th32ProcessID x = p) entries = Some pe
         \<and> parent_pid e p = th32ParentProcessID pe)"
  proof
    assume "p \<in> th32ProcessID ` set entries"
    then have "find (\<lambda>x. th32ProcessID x = p) entries \<noteq> None"
      by (auto simp: find_None_iff)
    then obtain pe where f: "find (\<lambda>x. th32ProcessID x = p) entries = Some pe" by auto
    then have "pe \<in> set entries" "th32ProcessID pe = p"
      by (auto simp: find_Some_iff)
    moreover have "parent_pid e p = th32ParentProcessID pe" by (simp add: pp f)
    ultimately show "\<exists>pe \<in> set entries. th32ProcessID pe = p
         \<and> find (\<lambda>x. th32ProcessID x = p) entries = Some pe
         \<and> parent_pid e p = th32ParentProcessID pe"
      using f by blast
  qed
  have absent: "p \<notin> th32ProcessID ` set entries \<longrightarrow> parent_pid e p = 1"
  proof
    assume "p \<notin> th32ProcessID ` set entries"
    then have "find (\<lambda>x. th32ProcessID x = p) entries = None"
      by (auto simp: find_None_iff)
    then show "parent_pid e p = 1" by (simp add: pp)
  qed
  have uniq: "distinct (map th32ProcessID entries) \<longrightarrow>
      (\<forall>pe \<in> set entries. parent_pid e (th32ProcessID pe) = th32ParentProcessID pe)"
    by (simp add: pp find_distinct_entry)
  from present absent uniq show ?thesis by blast
qed

text \<open>
  The theorem on the snapshot with the processes 4, 100 and 200, where 100 is the
  parent of 200: the parent of 200 is 100 and the parent of the absent 9999 is 1.
\<close>

theorem parent_pid_from_snapshot_witness:
  "CreateToolhelp32Snapshot example_env
     = Some [\<lparr>th32ProcessID = 4, th32ParentProcessID = 0\<rparr>,
             \<lparr>th32ProcessID = 100, th32ParentProcessID = 4\<rparr>,
             \<lparr>th32ProcessID = 200, th32ParentProcessID = 100\<rparr>]
   \<and> parent_pid example_env 200 = 100
   \<and> parent_pid example_env 9999 = 1"
proof -
  let ?es = "[\<lparr>th32ProcessID = 4, th32ParentProcessID = 0\<rparr>,
             \<lparr>th32ProcessID = 100, th32ParentProcessID = 4\<rparr>,
             \<lparr>th32ProcessID = 200, th32ParentProcessID = (100::pid_t)\<rparr>]"
  have h: "CreateToolhelp32Snapshot example_env = Some ?es"
    by (simp add: example_env_def)
  have a: "(200::pid_t) \<in> th32ProcessID ` set ?es" by simp
  have b: "(9999::pid_t) \<notin> th32ProcessID ` set ?es" by simp
  have "parent_pid example_env 200 = 100"
    using a parent_pid_from_snapshot [OF h, of 200] by auto
  moreover have "parent_pid example_env 9999 = 1"
    using b parent_pid_from_snapshot [OF h, of 9999] by blast
  ultimately show ?thesis using h by simp
qed

end
